theory Spec2Isabelle
  imports Main
begin

section \<open>JavaScript strings\<close>

text \<open>
  A JavaScript string is a sequence of UTF-16 code units. The server compares, trims and
  pattern-matches on code units, so a string is modelled as the list of its code units
  (every unit of a real string is below 65536; the theorems hold for all lists).
  \<open>js\<close> embeds an ASCII literal; the Vietnamese letters of the source are written by
  their code units, the file being NFC-normalised (\<open>0x1EC7\<close> is e with circumflex and
  dot below, as in the country name).
\<close>

type_synonym jsstring = "nat list"

definition js :: "string \<Rightarrow> jsstring" where
  "js s = map of_char s"

text \<open>\<open>\s\<close> in a regular expression and \<open>String.prototype.trim\<close> use the same set:
  WhiteSpace and LineTerminator of the language specification.\<close>

definition is_space :: "nat \<Rightarrow> bool" where
  "is_space c =
     (c = 9 \<or> c = 10 \<or> c = 11 \<or> c = 12 \<or> c = 13 \<or> c = 32 \<or> c = 0xA0 \<or> c = 0x1680
      \<or> (0x2000 \<le> c \<and> c \<le> 0x200A) \<or> c = 0x2028 \<or> c = 0x2029 \<or> c = 0x202F
      \<or> c = 0x205F \<or> c = 0x3000 \<or> c = 0xFEFF)"

definition is_digit :: "nat \<Rightarrow> bool" where
  "is_digit c = (48 \<le> c \<and> c \<le> 57)"

text \<open>\<open>[A-Z]\<close> under the \<open>i\<close> flag (no \<open>u\<close> flag): canonicalisation upper-cases a
  unit unless that would take a unit from 128 upwards to one below 128, so exactly the two
  ASCII cases of a letter match.\<close>

definition is_alpha :: "nat \<Rightarrow> bool" where
  "is_alpha c = ((65 \<le> c \<and> c \<le> 90) \<or> (97 \<le> c \<and> c \<le> 122))"

text \<open>A literal letter \<open>p\<close> of a pattern under the \<open>i\<close> flag, for the letters the
  patterns of this program use: ASCII letters match in both cases, and \<open>0x1EC7\<close> matches
  itself and its capital \<open>0x1EC6\<close>.\<close>

definition ci :: "nat \<Rightarrow> nat \<Rightarrow> bool" where
  "ci p c = (c = p \<or> (is_alpha p \<and> is_alpha c \<and> (c = p + 32 \<or> p = c + 32))
             \<or> (p = 0x1EC7 \<and> c = 0x1EC6))"

definition trim :: "jsstring \<Rightarrow> jsstring" where
  "trim s = rev (dropWhile is_space (rev (dropWhile is_space s)))"

text \<open>\<open>String.prototype.includes\<close>.\<close>

fun str_includes :: "jsstring \<Rightarrow> jsstring \<Rightarrow> bool" where
  "str_includes [] p = (p = [])"
| "str_includes (c # cs) p = (take (length p) (c # cs) = p \<or> str_includes cs p)"

text \<open>Template-literal rendering of a non-negative integer (\<open>${response.status}\<close>).\<close>

fun digits :: "nat \<Rightarrow> jsstring" where
  "digits n = (if n < 10 then [48 + n] else digits (n div 10) @ [48 + n mod 10])"

declare digits.simps [simp del]

text \<open>\<open>x || d\<close> on strings: the empty string is the falsy one.\<close>

definition or_else :: "jsstring \<Rightarrow> jsstring \<Rightarrow> jsstring" where
  "or_else x d = (if x = [] then d else x)"

section \<open>The regular expressions of the server\<close>

text \<open>
  Every regular expression of the server is a sequence of single-unit items, each a
  character class taken once, optionally, zero or more times or one or more times, and
  ends with \<open>$\<close>. \<open>match_here\<close> matches such a sequence against a whole string (the
  pattern anchored with \<open>^\<close>); \<open>test\<close> is \<open>RegExp.prototype.test\<close> for a pattern with
  no \<open>^\<close>, which tries every start position. Only the truth value of a match is used by
  the server, so the greedy order of the engine makes no difference.
\<close>

datatype item =
    One "nat \<Rightarrow> bool"
  | Opt "nat \<Rightarrow> bool"
  | Star "nat \<Rightarrow> bool"
  | Plus "nat \<Rightarrow> bool"

fun match_here :: "item list \<Rightarrow> jsstring \<Rightarrow> bool" where
  "match_here [] s = (s = [])"
| "match_here (One P # ps) [] = False"
| "match_here (One P # ps) (c # cs) = (P c \<and> match_here ps cs)"
| "match_here (Opt P # ps) [] = match_here ps []"
| "match_here (Opt P # ps) (c # cs) = (match_here ps (c # cs) \<or> (P c \<and> match_here ps cs))"
| "match_here (Star P # ps) [] = match_here ps []"
| "match_here (Star P # ps) (c # cs) =
     (match_here ps (c # cs) \<or> (P c \<and> match_here (Star P # ps) cs))"
| "match_here (Plus P # ps) [] = False"
| "match_here (Plus P # ps) (c # cs) = (P c \<and> match_here (Star P # ps) cs)"

fun test :: "item list \<Rightarrow> jsstring \<Rightarrow> bool" where
  "test ps [] = match_here ps []"
| "test ps (c # cs) = (match_here ps (c # cs) \<or> test ps cs)"

text \<open>A literal word under the \<open>i\<close> flag.\<close>

definition lit_ci :: "jsstring \<Rightarrow> item list" where
  "lit_ci w = map (\<lambda>p. One (ci p)) w"

text \<open>\<open>/^[0-9]{10,13}$/\<close>: ten digits, then up to three more.\<close>

definition TAX_CODE_RE :: "item list" where
  "TAX_CODE_RE = replicate 10 (One is_digit) @ replicate 3 (Opt is_digit)"

section \<open>Address formatter\<close>

definition VIET :: jsstring where
  "VIET = js ''Vi'' @ [0x1EC7] @ js ''t''"

definition NAM :: jsstring where
  "NAM = js ''Nam''"

definition VIETNAM :: jsstring where
  "VIETNAM = js ''Vietnam''"

text \<open>The four patterns of \<open>formatAddress\<close>, in the order of the source: a comma and
  optional white space, or at least one white space, before the country name in either
  spelling, then optional white space up to the end.\<close>

definition vietnamPatterns :: "item list list" where
  "vietnamPatterns =
     [ [One (\<lambda>c. c = 44), Star is_space] @ lit_ci VIET @ [Star is_space] @ lit_ci NAM
         @ [Star is_space],
       [One (\<lambda>c. c = 44), Star is_space] @ lit_ci VIETNAM @ [Star is_space],
       [Plus is_space] @ lit_ci VIET @ [Star is_space] @ lit_ci NAM @ [Star is_space],
       [Plus is_space] @ lit_ci VIETNAM @ [Star is_space] ]"

definition COUNTRY_SUFFIX :: jsstring where
  "COUNTRY_SUFFIX = js '', Vi'' @ [0x1EC7] @ js ''t Nam''"

definition formatAddress :: "jsstring \<Rightarrow> jsstring" where
  "formatAddress address =
     (if address = [] \<or> trim address = [] then []
      else let trimmedAddress = trim address;
               hasVietnam = list_ex (\<lambda>pattern. test pattern trimmedAddress) vietnamPatterns
           in if hasVietnam then trimmedAddress else trimmedAddress @ COUNTRY_SUFFIX)"

section \<open>Data model\<close>

text \<open>The persisted submission (\<open>taxInfo\<close> of the submit handler).\<close>

record tax_info =
  taxCode :: jsstring
  companyName :: jsstring
  address :: jsstring
  email :: jsstring
  phone :: jsstring
  invoiceNumber :: jsstring
  createdAt :: jsstring
  updatedAt :: jsstring

text \<open>The single file \<open>TAX_INFO_FILE\<close>: missing, present but not readable as JSON
  (\<open>readFileSync\<close> or \<open>JSON.parse\<close> throws), or holding a record.\<close>

datatype disk = Absent | Unreadable | Holds tax_info

text \<open>What \<open>await fetch(...)\<close> followed by reading the body comes to: a response with
  its status, status text and body, a rejection with an \<open>AbortError\<close> (the timeout), or
  a rejection with another error and its message.\<close>

datatype 'b fetch_result =
    Response nat jsstring 'b
  | Aborted
  | Failed jsstring

text \<open>The webhook's body as \<open>appendTaxInfoToSheet\<close> reads it: \<open>NotJson\<close> when
  \<open>JSON.parse\<close> throws (or yields \<open>null\<close>, whose \<open>success\<close> cannot be read: the
  same \<open>catch\<close> takes both), else the truth value of \<open>result.success\<close> and
  \<open>result.message\<close>, empty when absent.\<close>

datatype sheet_body = NotJson | Json bool jsstring

text \<open>A record of the custom lookup API and of \<open>MOCK_TAX_DATA\<close>; a field that is
  absent or \<open>null\<close> is the empty string (each is read through \<open>||\<close> or \<open>&&\<close>).\<close>

record registry_entry =
  MaSoThue :: jsstring
  Title :: jsstring
  TitleEn :: jsstring
  TitleEnAscii :: jsstring
  DiaChiCongTy :: jsstring

datatype custom_body = CustomNotJson | CustomJson registry_entry

text \<open>The public registry's payload \<open>{code, desc, data: {id, name, internationalName,
  shortName, address}}\<close>; \<open>VqNotJson\<close> when \<open>response.json()\<close> rejects or yields
  \<open>null\<close> (reading \<open>code\<close> then throws, and the adapter's \<open>catch\<close> returns
  \<open>null\<close> as well).\<close>

record vietqr_company =
  vq_id :: jsstring
  vq_name :: jsstring
  vq_internationalName :: jsstring
  vq_shortName :: jsstring
  vq_address :: jsstring

record vietqr_payload =
  vq_code :: jsstring
  vq_desc :: jsstring
  vq_data :: "vietqr_company option"

datatype vietqr_body = VqNotJson | VqJson vietqr_payload

text \<open>The \<open>data\<close> of a successful lookup.\<close>

record company =
  co_taxCode :: jsstring
  co_companyName :: jsstring
  co_companyNameEn :: jsstring
  co_shortName :: jsstring
  co_address :: jsstring

datatype lookup_result = LookupOk company | LookupFail jsstring

text \<open>\<open>{success, message}\<close> of the spreadsheet sync.\<close>

type_synonym sync_outcome = "bool \<times> jsstring"

text \<open>What a call does to the outside, in order: a write of the file, a request, a
  wait in milliseconds.\<close>

datatype effect =
    WriteFile tax_info
  | HttpPost jsstring "(string \<times> jsstring) list"
  | HttpGet jsstring
  | Sleep nat

text \<open>
  The process environment and the collaborators. \<open>webhook\<close> answers the request made
  by the call of \<open>appendTaxInfoToSheet\<close> with the given \<open>retryCount\<close>, so it may
  answer each attempt differently. \<open>writeFileSync_throws\<close> says whether the write of
  the file fails; \<open>lookup_exceeds_15s\<close> whether the 15 second timer of the lookup
  handler wins its race. An environment variable that is unset is the empty string (each
  is only tested for truth).
\<close>

record env =
  VERCEL :: bool
  GOOGLE_APPS_SCRIPT_URL :: jsstring
  TAX_LOOKUP_API_URL :: jsstring
  writeFileSync_throws :: bool
  webhook :: "(string \<times> jsstring) list \<Rightarrow> nat \<Rightarrow> sheet_body fetch_result"
  customApi :: "jsstring \<Rightarrow> custom_body fetch_result"
  vietqrApi :: "jsstring \<Rightarrow> vietqr_body fetch_result"
  lookup_exceeds_15s :: bool

section \<open>Persistence store\<close>

definition readTaxInfo :: "env \<Rightarrow> disk \<Rightarrow> tax_info option" where
  "readTaxInfo e d =
     (if VERCEL e then None
      else case d of Absent \<Rightarrow> None | Unreadable \<Rightarrow> None | Holds t \<Rightarrow> Some t)"

text \<open>The result, the file afterwards and the writes made. A write that throws is taken
  to leave the file as it was.\<close>

definition writeTaxInfo :: "env \<Rightarrow> disk \<Rightarrow> tax_info \<Rightarrow> bool \<times> disk \<times> effect list" where
  "writeTaxInfo e d taxInfo =
     (if VERCEL e then (True, d, [])
      else if writeFileSync_throws e then (True, d, [WriteFile taxInfo])
      else (True, Holds taxInfo, [WriteFile taxInfo]))"

section \<open>Spreadsheet sync\<close>

definition MAX_RETRIES :: nat where
  "MAX_RETRIES = 2"

definition ok :: "nat \<Rightarrow> bool" where
  "ok status = (200 \<le> status \<and> status \<le> 299)"

definition sheet_payload :: "tax_info \<Rightarrow> (string \<times> jsstring) list" where
  "sheet_payload taxInfo =
     [(''invoiceNumber'', invoiceNumber taxInfo), (''taxCode'', taxCode taxInfo),
      (''companyName'', companyName taxInfo), (''address'', address taxInfo),
      (''email'', email taxInfo), (''phone'', phone taxInfo)]"

definition errorMessage :: "nat \<Rightarrow> jsstring \<Rightarrow> jsstring" where
  "errorMessage status statusText =
     (if status = 401 then
        js ''Apps Script authorization error. Check if '' @ [0x22] @ js ''Who has access''
          @ [0x22] @ js '' is set to '' @ [0x22] @ js ''Anyone'' @ [0x22]
      else if status = 403 then js ''Permission denied. Check if the Google Sheet allows editing''
      else if status = 404 then js ''Apps Script URL not found. Check GOOGLE_APPS_SCRIPT_URL''
      else js ''HTTP '' @ digits status @ js '': '' @ statusText)"

text \<open>A retry: this attempt's request, the wait, then what the recursive call does.\<close>

definition retry_after ::
  "effect \<Rightarrow> nat \<Rightarrow> sync_outcome \<times> effect list \<Rightarrow> sync_outcome \<times> effect list" where
  "retry_after request ms r = (fst r, request # Sleep ms # snd r)"

function appendTaxInfoToSheet :: "env \<Rightarrow> tax_info \<Rightarrow> nat \<Rightarrow> sync_outcome \<times> effect list" where
  "appendTaxInfoToSheet e taxInfo retryCount =
     (if GOOGLE_APPS_SCRIPT_URL e = [] then ((False, js ''Google Sheets not configured''), [])
      else
        (case webhook e (sheet_payload taxInfo) retryCount of
           Response status statusText body \<Rightarrow>
             if ok status then
               (case body of
                  Json success message \<Rightarrow>
                    if success then
                      ((True, js ''Data saved to Google Sheets''),
                       [HttpPost (GOOGLE_APPS_SCRIPT_URL e) (sheet_payload taxInfo)])
                    else if retryCount < MAX_RETRIES then
                      retry_after (HttpPost (GOOGLE_APPS_SCRIPT_URL e) (sheet_payload taxInfo))
                        (1000 * (retryCount + 1)) (appendTaxInfoToSheet e taxInfo (retryCount + 1))
                    else
                      ((False, or_else message (js ''Apps Script returned error'')),
                       [HttpPost (GOOGLE_APPS_SCRIPT_URL e) (sheet_payload taxInfo)])
                | NotJson \<Rightarrow>
                    if retryCount < MAX_RETRIES then
                      retry_after (HttpPost (GOOGLE_APPS_SCRIPT_URL e) (sheet_payload taxInfo))
                        (1000 * (retryCount + 1)) (appendTaxInfoToSheet e taxInfo (retryCount + 1))
                    else
                      ((False, js ''Failed to parse response from Google Sheets''),
                       [HttpPost (GOOGLE_APPS_SCRIPT_URL e) (sheet_payload taxInfo)]))
             else if status \<ge> 500 \<and> retryCount < MAX_RETRIES then
               retry_after (HttpPost (GOOGLE_APPS_SCRIPT_URL e) (sheet_payload taxInfo))
                 (1000 * (retryCount + 1)) (appendTaxInfoToSheet e taxInfo (retryCount + 1))
             else
               ((False, errorMessage status statusText),
                [HttpPost (GOOGLE_APPS_SCRIPT_URL e) (sheet_payload taxInfo)])
         | Aborted \<Rightarrow>
             if retryCount < MAX_RETRIES then
               retry_after (HttpPost (GOOGLE_APPS_SCRIPT_URL e) (sheet_payload taxInfo))
                 (1000 * (retryCount + 1)) (appendTaxInfoToSheet e taxInfo (retryCount + 1))
             else
               ((False, js ''Request timeout. Please check your connection and try again.''),
                [HttpPost (GOOGLE_APPS_SCRIPT_URL e) (sheet_payload taxInfo)])
         | Failed msg \<Rightarrow>
             if str_includes msg (js ''fetch failed'') \<or> str_includes msg (js ''ECONNREFUSED'') then
               if retryCount < MAX_RETRIES then
                 retry_after (HttpPost (GOOGLE_APPS_SCRIPT_URL e) (sheet_payload taxInfo))
                   (1000 * (retryCount + 1)) (appendTaxInfoToSheet e taxInfo (retryCount + 1))
               else
                 ((False, js ''Network error. Please check your connection.''),
                  [HttpPost (GOOGLE_APPS_SCRIPT_URL e) (sheet_payload taxInfo)])
             else
               ((False, or_else msg (js ''Unknown error occurred'')),
                [HttpPost (GOOGLE_APPS_SCRIPT_URL e) (sheet_payload taxInfo)])))"
  by pat_completeness auto
termination
  by (relation "measure (\<lambda>(e, taxInfo, retryCount). MAX_RETRIES - retryCount)") auto

declare appendTaxInfoToSheet.simps [simp del]

section \<open>Lookup source adapters and orchestrator\<close>

text \<open>The static fallback table, with the \<open>Title\<close> and \<open>DiaChiCongTy\<close> of its one
  entry named. Its single key is a digit string, and it is only consulted with a key that
  passed the tax code pattern, so no inherited property of the object is ever read.\<close>

definition MOCK_TITLE :: jsstring where
  "MOCK_TITLE =
     js ''C'' @ [0xF4] @ js ''ng Ty TNHH Mtv Ng'' @ [0xF4] @ js '' Tr'' @ [0x1ECD]
       @ js ''ng Ph'' @ [0xE1] @ js ''t''"

definition MOCK_ADDRESS :: jsstring where
  "MOCK_ADDRESS =
     js ''T'' @ [0x1ED5] @ js '' 17, '' @ [0x1EA5] @ js ''p T'' @ [0xE2] @ js ''n Ti''
       @ [0x1EBF] @ js ''n, X'' @ [0xE3] @ js '' T'' @ [0xE2] @ js ''n L'' @ [0x1EAD]
       @ js ''p, Huy'' @ [0x1EC7] @ js ''n T'' @ [0xE2] @ js ''n Bi'' @ [0xEA]
       @ js ''n, T'' @ [0x1EC9] @ js ''nh T'' @ [0xE2] @ js ''y Ninh''"

definition MOCK_TAX_DATA :: "jsstring \<rightharpoonup> registry_entry" where
  "MOCK_TAX_DATA =
     [js ''3901212654'' \<mapsto>
        \<lparr> MaSoThue = js ''3901212654'', Title = MOCK_TITLE,
          TitleEn = js ''Ngo Trong Phat Co., Ltd'', TitleEnAscii = [],
          DiaChiCongTy = MOCK_ADDRESS \<rparr>]"

text \<open>The common shape of a record of the custom API and of the fallback table
  (\<open>x || ''\<close> on a string is \<open>x\<close>).\<close>

definition from_registry :: "jsstring \<Rightarrow> registry_entry \<Rightarrow> company" where
  "from_registry tax_code d =
     \<lparr> co_taxCode = or_else (MaSoThue d) tax_code, co_companyName = Title d,
       co_companyNameEn = TitleEn d, co_shortName = TitleEnAscii d,
       co_address = formatAddress (DiaChiCongTy d) \<rparr>"

definition VIETQR_URL :: "jsstring \<Rightarrow> jsstring" where
  "VIETQR_URL tax_code = js ''https://api.vietqr.io/v2/business/'' @ tax_code"

text \<open>\<open>tryVietQRApi\<close>: \<open>None\<close> is its \<open>null\<close>.\<close>

definition tryVietQRApi :: "env \<Rightarrow> jsstring \<Rightarrow> lookup_result option" where
  "tryVietQRApi e tax_code =
     (case vietqrApi e (VIETQR_URL tax_code) of
        Response status statusText body \<Rightarrow>
          if status = 429 then None
          else if \<not> ok status then None
          else
            (case body of
               VqNotJson \<Rightarrow> None
             | VqJson d \<Rightarrow>
                 if vq_code d = js ''00'' \<and> vq_data d \<noteq> None then
                   Some (LookupOk
                     \<lparr> co_taxCode = or_else (vq_id (the (vq_data d))) tax_code,
                       co_companyName = vq_name (the (vq_data d)),
                       co_companyNameEn = vq_internationalName (the (vq_data d)),
                       co_shortName = vq_shortName (the (vq_data d)),
                       co_address = formatAddress (vq_address (the (vq_data d))) \<rparr>)
                 else if vq_code d \<noteq> [] \<and> vq_code d \<noteq> js ''00'' then
                   Some (LookupFail (js ''VietQR API: '' @ or_else (vq_desc d) (js ''Unknown error'')))
                 else None)
      | Aborted \<Rightarrow> None
      | Failed msg \<Rightarrow> None)"

text \<open>Priority 1 of the orchestrator: the configured custom API, used when the variable
  is set and is not the placeholder. Every failure inside it is caught and falls
  through.\<close>

definition custom_api_configured :: "env \<Rightarrow> bool" where
  "custom_api_configured e =
     (TAX_LOOKUP_API_URL e \<noteq> [] \<and> \<not> str_includes (TAX_LOOKUP_API_URL e) (js ''example.com''))"

definition CUSTOM_URL :: "env \<Rightarrow> jsstring \<Rightarrow> jsstring" where
  "CUSTOM_URL e tax_code = TAX_LOOKUP_API_URL e @ js ''/'' @ tax_code"

definition tryCustomApi :: "env \<Rightarrow> jsstring \<Rightarrow> company option" where
  "tryCustomApi e tax_code =
     (case customApi e (CUSTOM_URL e tax_code) of
        Response status statusText body \<Rightarrow>
          if ok status then
            (case body of
               CustomNotJson \<Rightarrow> None
             | CustomJson d \<Rightarrow>
                 if MaSoThue d \<noteq> [] \<and> Title d \<noteq> [] then Some (from_registry tax_code d)
                 else None)
          else None
      | Aborted \<Rightarrow> None
      | Failed msg \<Rightarrow> None)"

definition MSG_INVALID_TAX_CODE :: jsstring where
  "MSG_INVALID_TAX_CODE =
     js ''M'' @ [0xE3] @ js '' s'' @ [0x1ED1] @ js '' thu'' @ [0x1EBF] @ js '' kh'' @ [0xF4]
       @ js ''ng h'' @ [0x1EE3] @ js ''p l'' @ [0x1EC7]"

text \<open>The generic message of the orchestrator when every source has failed (in
  Vietnamese: no company information found from the public sources, enter it by hand or
  check the tax code).\<close>

definition MSG_NOT_FOUND :: jsstring where
  "MSG_NOT_FOUND =
     js ''Kh'' @ [0xF4] @ js ''ng t'' @ [0xEC] @ js ''m th'' @ [0x1EA5] @ js ''y th'' @ [0xF4]
       @ js ''ng tin c'' @ [0xF4] @ js ''ng ty t'' @ [0x1EEB] @ js '' c'' @ [0xE1]
       @ js ''c ngu'' @ [0x1ED3] @ js ''n c'' @ [0xF4] @ js ''ng khai. Vui l'' @ [0xF2]
       @ js ''ng nh'' @ [0x1EAD] @ js ''p th'' @ [0x1EE7] @ js '' c'' @ [0xF4] @ js ''ng ho''
       @ [0x1EB7] @ js ''c ki'' @ [0x1EC3] @ js ''m tra l'' @ [0x1EA1] @ js ''i m'' @ [0xE3]
       @ js '' s'' @ [0x1ED1] @ js '' thu'' @ [0x1EBF] @ js ''.''"

text \<open>
  \<open>lookupCompanyByTaxCode\<close>, with the requests it makes. The error description of the
  public registry is only logged: a failure of \<open>tryVietQRApi\<close> goes on to the fallback
  table like its \<open>null\<close>. The outer \<open>catch\<close> of the source is not a branch here:
  every call that can throw stands inside the inner \<open>try\<close> of the custom API or inside
  \<open>tryVietQRApi\<close>, which catch everything.
\<close>

definition lookupCompanyByTaxCode :: "env \<Rightarrow> jsstring \<Rightarrow> lookup_result \<times> effect list" where
  "lookupCompanyByTaxCode e tax_code =
     (if \<not> match_here TAX_CODE_RE tax_code then (LookupFail MSG_INVALID_TAX_CODE, [])
      else
        let custom = (if custom_api_configured e then tryCustomApi e tax_code else None);
            requests = (if custom_api_configured e then [HttpGet (CUSTOM_URL e tax_code)] else [])
        in case custom of
             Some c \<Rightarrow> (LookupOk c, requests)
           | None \<Rightarrow>
               (case tryVietQRApi e tax_code of
                  Some (LookupOk c) \<Rightarrow> (LookupOk c, requests @ [HttpGet (VIETQR_URL tax_code)])
                | vietQrResult \<Rightarrow>
                    (case MOCK_TAX_DATA tax_code of
                       Some mockData \<Rightarrow>
                         (LookupOk (from_registry tax_code mockData),
                          requests @ [HttpGet (VIETQR_URL tax_code)])
                     | None \<Rightarrow>
                         (LookupFail MSG_NOT_FOUND, requests @ [HttpGet (VIETQR_URL tax_code)]))))"

section \<open>Request handlers\<close>

text \<open>The JSON body of a response: \<open>{success: false, message}\<close>, the lookup's
  \<open>{success: true, data}\<close>, and the submit's \<open>{success: true, message, data,
  googleSheetsSync}\<close>. A response is its HTTP status and its body.\<close>

datatype response_body =
    Failure jsstring
  | Found company
  | Saved jsstring tax_info sync_outcome

type_synonym response = "nat \<times> response_body"

definition success :: "response \<Rightarrow> bool" where
  "success r = (case snd r of Failure m \<Rightarrow> False | Found c \<Rightarrow> True | Saved m t g \<Rightarrow> True)"

definition MSG_LOOKUP_FORMAT :: jsstring where
  "MSG_LOOKUP_FORMAT =
     js ''M'' @ [0xE3] @ js '' s'' @ [0x1ED1] @ js '' thu'' @ [0x1EBF] @ js '' kh'' @ [0xF4]
       @ js ''ng h'' @ [0x1EE3] @ js ''p l'' @ [0x1EC7] @ js ''. Vui l'' @ [0xF2] @ js ''ng nh''
       @ [0x1EAD] @ js ''p 10-13 ch'' @ [0x1EEF] @ js '' s'' @ [0x1ED1] @ js ''.''"

definition MSG_LOOKUP_DEFAULT :: jsstring where
  "MSG_LOOKUP_DEFAULT =
     js ''Kh'' @ [0xF4] @ js ''ng t'' @ [0xEC] @ js ''m th'' @ [0x1EA5] @ js ''y th'' @ [0xF4]
       @ js ''ng tin c'' @ [0xF4] @ js ''ng ty t'' @ [0x1EEB] @ js '' c'' @ [0xE1]
       @ js ''c ngu'' @ [0x1ED3] @ js ''n tra c'' @ [0x1EE9] @ js ''u''"

text \<open>
  \<open>GET /api/tax-lookup/:taxCode\<close>. The lookup races a 15 second timer; when the timer
  wins the handler answers with the timer's message (the requests of the lookup have been
  made all the same). \<open>res.json\<close> without \<open>res.status\<close> answers 200. The outer
  \<open>catch\<close> of the handler answers 200 as well; nothing in the \<open>try\<close> reaches it.
\<close>

definition get_tax_lookup :: "env \<Rightarrow> jsstring \<Rightarrow> response \<times> effect list" where
  "get_tax_lookup e tax_code =
     (if tax_code = [] \<or> \<not> match_here TAX_CODE_RE tax_code then
        ((200, Failure MSG_LOOKUP_FORMAT), [])
      else
        (case lookupCompanyByTaxCode e tax_code of
           (result, requests) \<Rightarrow>
             if lookup_exceeds_15s e then
               ((200, Failure (js ''Lookup timeout after 15 seconds'')), requests)
             else
               (case result of
                  LookupOk c \<Rightarrow> ((200, Found c), requests)
                | LookupFail m \<Rightarrow> ((200, Failure (or_else m MSG_LOOKUP_DEFAULT)), requests))))"

definition MSG_LOOKUP_ERROR :: jsstring where
  "MSG_LOOKUP_ERROR =
     js ''L'' @ [0x1ED7] @ js ''i khi tra c'' @ [0x1EE9] @ js ''u th'' @ [0xF4]
       @ js ''ng tin. Vui l'' @ [0xF2] @ js ''ng th'' @ [0x1EED] @ js '' l'' @ [0x1EA1]
       @ js ''i sau.''"

text \<open>The error-handling middleware, for an error passed on by the framework before the
  headers are sent: by the URL of the request and the message of the error.\<close>

definition error_middleware :: "jsstring \<Rightarrow> jsstring \<Rightarrow> response" where
  "error_middleware url msg =
     (if url \<noteq> [] \<and> str_includes url (js ''/api/tax-lookup/'') then
        (200, Failure (or_else msg MSG_LOOKUP_ERROR))
      else (500, Failure (or_else msg (js ''Something went wrong!''))))"

section \<open>Phone normaliser\<close>






section \<open>Submit handler\<close>








section \<open>Words of the specification\<close>

text \<open>
  The properties below are stated with these predicates, which follow the wording of the
  specification and not the code. A string is in \<open>splits Q R\<close> when it is a string of
  \<open>Q\<close> followed by a string of \<open>R\<close>. A string is \<open>blank\<close> when it is white space only.
  \<open>same_letters w v\<close>: \<open>v\<close> spells the word \<open>w\<close> in any letter case. A country name is
  the two-word spelling, with any white space or none between the words, or the one-word
  spelling; a separator is a comma followed by any white space, or white space, at least
  one unit. An address ends with the country when it is some text, a separator, a country
  name and trailing white space.
\<close>

definition splits :: "(jsstring \<Rightarrow> bool) \<Rightarrow> (jsstring \<Rightarrow> bool) \<Rightarrow> jsstring \<Rightarrow> bool" where
  "splits Q R s = (\<exists>u r. s = u @ r \<and> Q u \<and> R r)"

definition blank :: "jsstring \<Rightarrow> bool" where
  "blank w = list_all is_space w"

definition same_letters :: "jsstring \<Rightarrow> jsstring \<Rightarrow> bool" where
  "same_letters w v = list_all2 ci w v"

definition country_name :: "jsstring \<Rightarrow> bool" where
  "country_name v =
     ((\<exists>a w b. v = a @ w @ b \<and> same_letters VIET a \<and> blank w \<and> same_letters NAM b)
      \<or> same_letters VIETNAM v)"

definition separator :: "jsstring \<Rightarrow> bool" where
  "separator sep = ((\<exists>w. sep = 44 # w \<and> blank w) \<or> (sep \<noteq> [] \<and> blank sep))"

definition ends_with_country :: "jsstring \<Rightarrow> bool" where
  "ends_with_country t =
     (\<exists>pre sep v w. t = pre @ sep @ v @ w \<and> separator sep \<and> country_name v \<and> blank w)"

text \<open>The public registry is unreachable or answers an error: the request fails or times
  out, the status is not 2xx (429 among them), the body is not JSON, or the payload's
  code is not \<open>00\<close>.\<close>

definition unreachable_or_error :: "vietqr_body fetch_result \<Rightarrow> bool" where
  "unreachable_or_error r =
     (case r of
        Aborted \<Rightarrow> True
      | Failed msg \<Rightarrow> True
      | Response status statusText body \<Rightarrow>
          (if ok status then (case body of VqNotJson \<Rightarrow> True | VqJson d \<Rightarrow> vq_code d \<noteq> js ''00'')
           else True))"

section \<open>Sample inputs\<close>

text \<open>Concrete records and environments, used to run the definitions.\<close>

definition sample_record :: tax_info where
  "sample_record =
     \<lparr> taxCode = js ''0316794479'', companyName = js ''Acme Co'', address = js ''1 Main St'',
       email = js ''test@example.com'', phone = js ''0123456789'', invoiceNumber = js ''INV-1'',
       createdAt = js ''2024-01-01T00:00:00.000Z'', updatedAt = js ''2024-01-01T00:00:00.000Z'' \<rparr>"

definition other_record :: tax_info where
  "other_record = sample_record \<lparr> taxCode := js ''3901212654'' \<rparr>"

text \<open>A local deployment with the webhook configured and answering with success, no
  custom lookup API, and a public registry that cannot be reached.\<close>

definition sample_env :: env where
  "sample_env =
     \<lparr> VERCEL = False, GOOGLE_APPS_SCRIPT_URL = js ''https://script.test/exec'',
       TAX_LOOKUP_API_URL = [], writeFileSync_throws = False,
       webhook = (\<lambda>payload attempt. Response 200 (js ''OK'') (Json True [])),
       customApi = (\<lambda>url. Failed (js ''fetch failed'')),
       vietqrApi = (\<lambda>url. Failed (js ''fetch failed'')),
       lookup_exceeds_15s = False \<rparr>"

definition vercel_env :: env where
  "vercel_env = sample_env \<lparr> VERCEL := True \<rparr>"

text \<open>Webhooks that answer every attempt the same way: HTTP 500, HTTP 400, and HTTP 200
  with a well-formed body whose \<open>success\<close> is false.\<close>

definition env_500 :: env where
  "env_500 = sample_env
     \<lparr> webhook := (\<lambda>payload attempt. Response 500 (js ''Internal Server Error'') NotJson) \<rparr>"

definition env_400 :: env where
  "env_400 = sample_env
     \<lparr> webhook := (\<lambda>payload attempt. Response 400 (js ''Bad Request'') NotJson) \<rparr>"

definition env_flag_false :: env where
  "env_flag_false = sample_env
     \<lparr> webhook := (\<lambda>payload attempt. Response 200 (js ''OK'') (Json False (js ''Sheet is locked''))) \<rparr>"


text \<open>A public registry that answers a well-formed error payload.\<close>

definition env_registry_error :: env where
  "env_registry_error = sample_env
     \<lparr> vietqrApi := (\<lambda>url. Response 200 (js ''OK'')
          (VqJson \<lparr> vq_code = js ''51'', vq_desc = js ''Tax code not found'',
                    vq_data = None \<rparr>)) \<rparr>"

section \<open>The regular expressions as sets of strings\<close>

text \<open>What \<open>match_here\<close> and \<open>test\<close> accept, item by item.\<close>

lemma match_here_Nil_iff: "match_here [] = (\<lambda>s. s = [])"
  by (rule ext) simp

lemma match_here_One_iff:
  "match_here (One P # ps) s = splits (\<lambda>u. \<exists>c. u = [c] \<and> P c) (match_here ps) s"
proof (cases s)
  case Nil
  then show ?thesis by (simp add: splits_def)
next
  case (Cons c cs)
  have "splits (\<lambda>u. \<exists>c. u = [c] \<and> P c) (match_here ps) (c # cs) = (P c \<and> match_here ps cs)"
  proof
    assume "splits (\<lambda>u. \<exists>c. u = [c] \<and> P c) (match_here ps) (c # cs)"
    then obtain a r where "c # cs = [a] @ r" "P a" "match_here ps r"
      by (auto simp add: splits_def)
    then show "P c \<and> match_here ps cs" by simp
  next
    assume "P c \<and> match_here ps cs"
    then have "c # cs = [c] @ cs \<and> (\<exists>a. [c] = [a] \<and> P a) \<and> match_here ps cs" by simp
    then show "splits (\<lambda>u. \<exists>c. u = [c] \<and> P c) (match_here ps) (c # cs)"
      unfolding splits_def by blast
  qed
  with Cons show ?thesis by simp
qed

lemma match_here_Star_iff:
  "match_here (Star P # ps) s = splits (list_all P) (match_here ps) s"
proof (induction s)
  case Nil
  show ?case by (simp add: splits_def)
next
  case (Cons c cs)
  show ?case
  proof
    assume "match_here (Star P # ps) (c # cs)"
    then consider "match_here ps (c # cs)" | "P c" "match_here (Star P # ps) cs"
      by auto
    then show "splits (list_all P) (match_here ps) (c # cs)"
    proof cases
      case 1
      then have "c # cs = [] @ (c # cs) \<and> list_all P [] \<and> match_here ps (c # cs)" by simp
      then show ?thesis unfolding splits_def by blast
    next
      case 2
      with Cons.IH obtain u r where "cs = u @ r" "list_all P u" "match_here ps r"
        by (auto simp add: splits_def)
      with 2 have "c # cs = (c # u) @ r \<and> list_all P (c # u) \<and> match_here ps r" by simp
      then show ?thesis unfolding splits_def by blast
    qed
  next
    assume "splits (list_all P) (match_here ps) (c # cs)"
    then obtain u r where ur: "c # cs = u @ r" "list_all P u" "match_here ps r"
      by (auto simp add: splits_def)
    show "match_here (Star P # ps) (c # cs)"
    proof (cases u)
      case Nil
      with ur have "r = c # cs" by simp
      with ur show ?thesis by simp
    next
      case (Cons a u')
      with ur have "a = c" "cs = u' @ r" "P c" "list_all P u'" by simp_all
      with ur Cons.IH have "match_here (Star P # ps) cs" by (auto simp add: splits_def)
      with \<open>P c\<close> show ?thesis by simp
    qed
  qed
qed

lemma match_here_Plus_iff:
  "match_here (Plus P # ps) s = splits (\<lambda>u. u \<noteq> [] \<and> list_all P u) (match_here ps) s"
proof (cases s)
  case Nil
  then show ?thesis by (simp add: splits_def)
next
  case (Cons c cs)
  show ?thesis
  proof
    assume "match_here (Plus P # ps) s"
    with Cons have "P c" "splits (list_all P) (match_here ps) cs"
      by (simp_all add: match_here_Star_iff)
    then obtain u r where "cs = u @ r" "list_all P u" "match_here ps r"
      by (auto simp add: splits_def)
    with \<open>P c\<close> Cons have "s = (c # u) @ r \<and> (c # u \<noteq> [] \<and> list_all P (c # u)) \<and> match_here ps r"
      by simp
    then show "splits (\<lambda>u. u \<noteq> [] \<and> list_all P u) (match_here ps) s"
      unfolding splits_def by blast
  next
    assume "splits (\<lambda>u. u \<noteq> [] \<and> list_all P u) (match_here ps) s"
    then obtain u r where ur: "s = u @ r" "u \<noteq> []" "list_all P u" "match_here ps r"
      by (auto simp add: splits_def)
    then obtain a u' where u: "u = a # u'" by (cases u) auto
    with ur Cons have "a = c" "cs = u' @ r" "P c" "list_all P u'" by simp_all
    with ur have "splits (list_all P) (match_here ps) cs" by (auto simp add: splits_def)
    with \<open>P c\<close> Cons show "match_here (Plus P # ps) s" by (simp add: match_here_Star_iff)
  qed
qed

lemma match_here_lit_ci_iff:
  "match_here (lit_ci w @ ps) s = splits (list_all2 ci w) (match_here ps) s"
proof (induction w arbitrary: s)
  case Nil
  show ?case by (simp add: lit_ci_def splits_def)
next
  case (Cons p w)
  have IH: "\<And>s. match_here (lit_ci w @ ps) s = splits (list_all2 ci w) (match_here ps) s"
    by (rule Cons.IH)
  show ?case
  proof (cases s)
    case Nil
    then show ?thesis by (simp add: lit_ci_def splits_def)
  next
    case (Cons c cs)
    have "match_here (lit_ci (p # w) @ ps) (c # cs) = (ci p c \<and> match_here (lit_ci w @ ps) cs)"
      by (simp add: lit_ci_def)
    also have "\<dots> = (ci p c \<and> splits (list_all2 ci w) (match_here ps) cs)"
      by (simp add: IH)
    also have "\<dots> = splits (list_all2 ci (p # w)) (match_here ps) (c # cs)"
      by (auto simp add: splits_def list_all2_Cons1 Cons_eq_append_conv)
    finally show ?thesis using Cons by simp
  qed
qed

lemma test_iff: "test ps s = splits (\<lambda>u. True) (match_here ps) s"
proof (induction s)
  case Nil
  show ?case by (simp add: splits_def)
next
  case (Cons c cs)
  show ?case
  proof
    assume "test ps (c # cs)"
    then consider "match_here ps (c # cs)" | "test ps cs" by auto
    then show "splits (\<lambda>u. True) (match_here ps) (c # cs)"
    proof cases
      case 1
      then have "c # cs = [] @ (c # cs) \<and> match_here ps (c # cs)" by simp
      then show ?thesis unfolding splits_def by blast
    next
      case 2
      with Cons.IH obtain u r where "cs = u @ r" "match_here ps r"
        by (auto simp add: splits_def)
      then have "c # cs = (c # u) @ r \<and> match_here ps r" by simp
      then show ?thesis unfolding splits_def by blast
    qed
  next
    assume "splits (\<lambda>u. True) (match_here ps) (c # cs)"
    then obtain u r where ur: "c # cs = u @ r" "match_here ps r"
      by (auto simp add: splits_def)
    show "test ps (c # cs)"
    proof (cases u)
      case Nil
      with ur have "r = c # cs" by simp
      with ur show ?thesis by simp
    next
      case (Cons a u')
      with ur have "cs = u' @ r" by simp
      with ur Cons.IH have "test ps cs" by (auto simp add: splits_def)
      then show ?thesis by simp
    qed
  qed
qed

lemma match_here_fun:
  "match_here [] = (\<lambda>s. s = [])"
  "match_here (One P # ps) = splits (\<lambda>u. \<exists>c. u = [c] \<and> P c) (match_here ps)"
  "match_here (Star P # ps) = splits (list_all P) (match_here ps)"
  "match_here (Plus P # ps) = splits (\<lambda>u. u \<noteq> [] \<and> list_all P u) (match_here ps)"
  "match_here (lit_ci w @ ps) = splits (list_all2 ci w) (match_here ps)"
  by (rule ext, simp add: match_here_One_iff match_here_Star_iff match_here_Plus_iff
      match_here_lit_ci_iff)+

lemma test_fun: "test ps = splits (\<lambda>u. True) (match_here ps)"
  by (rule ext) (simp add: test_iff)

lemma splits_assoc: "splits (splits Q R) S = splits Q (splits R S)"
proof (rule ext)
  fix s
  show "splits (splits Q R) S s = splits Q (splits R S) s"
  proof
    assume "splits (splits Q R) S s"
    then obtain u v r where "s = (u @ v) @ r" "Q u" "R v" "S r"
      by (auto simp add: splits_def)
    then have "s = u @ (v @ r) \<and> Q u \<and> (v @ r = v @ r \<and> R v \<and> S r)" by simp
    then show "splits Q (splits R S) s" unfolding splits_def by blast
  next
    assume "splits Q (splits R S) s"
    then obtain u v r where "s = u @ (v @ r)" "Q u" "R v" "S r"
      by (auto simp add: splits_def)
    then have "s = (u @ v) @ r \<and> (u @ v = u @ v \<and> Q u \<and> R v) \<and> S r" by simp
    then show "splits (splits Q R) S s" unfolding splits_def by blast
  qed
qed

lemma splits_end: "splits Q (\<lambda>s. s = []) = Q"
  by (rule ext) (simp add: splits_def)

lemma splits_or_left: "splits (\<lambda>u. Q u \<or> Q' u) R = (\<lambda>s. splits Q R s \<or> splits Q' R s)"
  by (rule ext) (auto simp add: splits_def)

lemma splits_or_right: "splits Q (\<lambda>r. R r \<or> R' r) = (\<lambda>s. splits Q R s \<or> splits Q R' s)"
  by (rule ext) (auto simp add: splits_def)

lemma separator_splits:
  "separator = (\<lambda>s. splits (\<lambda>u. \<exists>c. u = [c] \<and> c = 44) (list_all is_space) s
                   \<or> (s \<noteq> [] \<and> list_all is_space s))"
  by (rule ext) (auto simp add: separator_def splits_def blank_def)

lemma country_name_splits:
  "country_name = (\<lambda>v. splits (list_all2 ci VIET) (splits (list_all is_space) (list_all2 ci NAM)) v
                      \<or> list_all2 ci VIETNAM v)"
  by (rule ext) (auto simp add: country_name_def splits_def blank_def same_letters_def)

lemma ends_with_country_splits:
  "ends_with_country =
     splits (\<lambda>u. True) (splits separator (splits country_name (list_all is_space)))"
proof (rule ext)
  fix t
  show "ends_with_country t =
     splits (\<lambda>u. True) (splits separator (splits country_name (list_all is_space))) t"
  proof
    assume "ends_with_country t"
    then obtain pre sep v w where
      "t = pre @ sep @ v @ w" "separator sep" "country_name v" "list_all is_space w"
      by (auto simp add: ends_with_country_def blank_def)
    then have "t = pre @ (sep @ v @ w) \<and> True
        \<and> (sep @ v @ w = sep @ (v @ w) \<and> separator sep
             \<and> (v @ w = v @ w \<and> country_name v \<and> list_all is_space w))"
      by simp
    then show "splits (\<lambda>u. True) (splits separator (splits country_name (list_all is_space))) t"
      unfolding splits_def by blast
  next
    assume "splits (\<lambda>u. True) (splits separator (splits country_name (list_all is_space))) t"
    then obtain pre sep v w where
      "t = pre @ sep @ v @ w" "separator sep" "country_name v" "list_all is_space w"
      by (auto simp add: splits_def)
    then show "ends_with_country t"
      unfolding ends_with_country_def blank_def by blast
  qed
qed

lemma hasVietnam_iff:
  "list_ex (\<lambda>pattern. test pattern t) vietnamPatterns = ends_with_country t"
  by (simp add: vietnamPatterns_def test_fun match_here_fun splits_end
      ends_with_country_splits separator_splits country_name_splits
      splits_or_left splits_or_right splits_assoc)

text \<open>The tax code pattern, read as a length and a character class.\<close>

lemma match_ones:
  "match_here (replicate n (One P) @ ps) s
     = (n \<le> length s \<and> list_all P (take n s) \<and> match_here ps (drop n s))"
proof (induction n arbitrary: s)
  case 0
  show ?case by simp
next
  case (Suc n)
  show ?case by (cases s) (auto simp add: Suc.IH)
qed

lemma match_opts:
  "match_here (replicate n (Opt P)) s = (length s \<le> n \<and> list_all P s)"
proof (induction n arbitrary: s)
  case 0
  show ?case by auto
next
  case (Suc n)
  show ?case by (cases s) (auto simp add: Suc.IH)
qed

lemma list_all_take_drop: "(list_all P (take n s) \<and> list_all P (drop n s)) = list_all P s"
proof -
  have "list_all P (take n s @ drop n s) = list_all P s" by simp
  then show ?thesis by (simp only: list_all_append)
qed

lemma tax_code_re_iff:
  "match_here TAX_CODE_RE s = (10 \<le> length s \<and> length s \<le> 13 \<and> list_all is_digit s)"
proof -
  have "match_here TAX_CODE_RE s
          = (10 \<le> length s \<and> (list_all is_digit (take 10 s) \<and> list_all is_digit (drop 10 s))
             \<and> length s \<le> 13)"
    unfolding TAX_CODE_RE_def by (auto simp add: match_ones match_opts)
  then show ?thesis by (auto simp only: list_all_take_drop)
qed

section \<open>Trimming and the end of an address\<close>

lemma trim_blank: "(trim a = []) = blank a"
proof
  assume "trim a = []"
  then have "dropWhile is_space (rev (dropWhile is_space a)) = []"
    by (simp add: trim_def)
  then have all: "\<forall>x \<in> set (dropWhile is_space a). is_space x"
    by simp
  have "dropWhile is_space a = []"
  proof (rule ccontr)
    assume n: "dropWhile is_space a \<noteq> []"
    then have "\<not> is_space (hd (dropWhile is_space a))" by (rule hd_dropWhile)
    moreover from n have "hd (dropWhile is_space a) \<in> set (dropWhile is_space a)" by simp
    ultimately show False using all by blast
  qed
  then show "blank a"
    by (simp add: blank_def list_all_iff)
next
  assume "blank a"
  then have d: "dropWhile is_space a = []"
    by (simp add: blank_def list_all_iff)
  show "trim a = []" unfolding trim_def d by simp
qed

lemma trim_id:
  assumes "s \<noteq> []" "\<not> is_space (hd s)" "\<not> is_space (last s)"
  shows "trim s = s"
proof -
  from assms have a: "dropWhile is_space s = s" by (cases s) simp_all
  from assms have "rev s \<noteq> []" "\<not> is_space (hd (rev s))" by (simp_all add: hd_rev)
  then have "dropWhile is_space (rev s) = rev s" by (cases "rev s") simp_all
  with a show ?thesis by (simp add: trim_def)
qed

lemma separator_nonempty: "separator sep \<Longrightarrow> sep \<noteq> []"
  by (auto simp add: separator_def)

lemma ends_with_country_nonempty: "ends_with_country t \<Longrightarrow> t \<noteq> []"
  by (auto simp add: ends_with_country_def dest: separator_nonempty)

lemma ci_m: "ci 109 c = (c = 109 \<or> c = 77)"
  by (auto simp add: ci_def is_alpha_def)

lemma country_name_last: 
  assumes "country_name v" shows "v \<noteq> [] \<and> ci 109 (last v)"
proof -
  have nam: "\<And>b. same_letters NAM b \<Longrightarrow> b \<noteq> [] \<and> ci 109 (last b)"
    by (auto simp add: same_letters_def NAM_def js_def list_all2_Cons1)
  have vn: "\<And>b. same_letters VIETNAM b \<Longrightarrow> b \<noteq> [] \<and> ci 109 (last b)"
    by (auto simp add: same_letters_def VIETNAM_def js_def list_all2_Cons1)
  from assms show ?thesis
    unfolding country_name_def
  proof (elim disjE exE conjE)
    fix a w b
    assume "v = a @ w @ b" "same_letters NAM b"
    with nam [of b] show ?thesis by simp
  next
    assume "same_letters VIETNAM v"
    with vn [of v] show ?thesis by simp
  qed
qed

lemma no_country_by_last:
  assumes "\<not> is_space (last t)" "\<not> ci 109 (last t)"
  shows "\<not> ends_with_country t"
proof
  assume "ends_with_country t"
  then obtain pre sep v w where t: "t = pre @ sep @ v @ w" and v: "country_name v" and w: "blank w"
    by (auto simp add: ends_with_country_def)
  from v have v': "v \<noteq> []" "ci 109 (last v)" using country_name_last by simp_all
  show False
  proof (cases "w = []")
    case True
    with t v' have "last t = last v" by simp
    with v' assms show False by simp
  next
    case False
    with t have "last t = last w" by simp
    moreover from False w have "is_space (last w)"
      by (simp add: blank_def list_all_iff)
    ultimately show False using assms by simp
  qed
qed

lemma formatAddress_appends:
  assumes "s \<noteq> []" "\<not> is_space (hd s)" "\<not> is_space (last s)" "\<not> ci 109 (last s)"
  shows "formatAddress s = s @ COUNTRY_SUFFIX"
proof -
  from assms have "trim s = s" by (simp add: trim_id)
  moreover from assms have "\<not> ends_with_country s" by (simp add: no_country_by_last)
  ultimately show ?thesis using assms
    by (simp add: formatAddress_def hasVietnam_iff)
qed

section \<open>Properties of the address formatter\<close>

text \<open>
  C6, as the code has it. The formatter returns the empty string on empty or blank input.
  For every address whose trimmed text ends with the country, that is with a comma or
  white space, then the country name in either spelling and any letter case, it returns
  the trimmed text unchanged. For every other address it appends exactly the comma, a
  space and the two-word country name to the trimmed text. The separator before the
  country name is required by each of the four patterns.
\<close>

theorem formatAddress_cases:
  "(blank a \<longrightarrow> formatAddress a = [])
   \<and> (ends_with_country (trim a) \<longrightarrow> formatAddress a = trim a)
   \<and> (\<not> blank a \<and> \<not> ends_with_country (trim a) \<longrightarrow>
        formatAddress a = trim a @ js '', Vi'' @ [0x1EC7] @ js ''t Nam'')"
proof (intro conjI impI)
  assume "blank a"
  then show "formatAddress a = []"
    by (simp add: formatAddress_def trim_blank)
next
  assume e: "ends_with_country (trim a)"
  then have "trim a \<noteq> []" by (rule ends_with_country_nonempty)
  moreover from this have "a \<noteq> []" by (auto simp add: trim_def)
  ultimately show "formatAddress a = trim a"
    using e by (simp add: formatAddress_def hasVietnam_iff)
next
  assume n: "\<not> blank a \<and> \<not> ends_with_country (trim a)"
  then have "trim a \<noteq> []" by (simp add: trim_blank)
  moreover from this have "a \<noteq> []" by (auto simp add: trim_def)
  ultimately show "formatAddress a = trim a @ js '', Vi'' @ [0x1EC7] @ js ''t Nam''"
    using n by (simp add: formatAddress_def hasVietnam_iff COUNTRY_SUFFIX_def)
qed

theorem formatAddress_cases_witness:
  "blank (js ''   '') \<and> formatAddress (js ''   '') = []
   \<and> ends_with_country (trim (js '' Hue,VI'' @ [0x1EC6] @ js ''T  NAM ''))
   \<and> formatAddress (js '' Hue,VI'' @ [0x1EC6] @ js ''T  NAM '')
        = js ''Hue,VI'' @ [0x1EC6] @ js ''T  NAM''
   \<and> \<not> blank (js ''12 Le Loi, Hanoi'')
   \<and> \<not> ends_with_country (trim (js ''12 Le Loi, Hanoi''))
   \<and> formatAddress (js ''12 Le Loi, Hanoi'')
        = js ''12 Le Loi, Hanoi'' @ js '', Vi'' @ [0x1EC7] @ js ''t Nam''"
proof -
  have b1: "blank (js ''   '')"
    by (simp add: blank_def js_def is_space_def)
  have t2: "trim (js '' Hue,VI'' @ [0x1EC6] @ js ''T  NAM '') = js ''Hue,VI'' @ [0x1EC6] @ js ''T  NAM''"
    by (simp add: trim_def js_def is_space_def)
  have v: "same_letters VIET (js ''VI'' @ [0x1EC6] @ js ''T'')"
    by (simp add: same_letters_def VIET_def js_def ci_def is_alpha_def)
  have n: "same_letters NAM (js ''NAM'')"
    by (simp add: same_letters_def NAM_def js_def ci_def is_alpha_def)
  have w: "blank (js ''  '')" "blank []"
    by (simp_all add: blank_def js_def is_space_def)
  have c: "country_name ((js ''VI'' @ [0x1EC6] @ js ''T'') @ js ''  '' @ js ''NAM'')"
    unfolding country_name_def using v n w by blast
  have s: "separator [44]"
    by (simp add: separator_def blank_def)
  have "ends_with_country
          (js ''Hue'' @ [44] @ ((js ''VI'' @ [0x1EC6] @ js ''T'') @ js ''  '' @ js ''NAM'') @ [])"
    unfolding ends_with_country_def using s c w by blast
  then have "ends_with_country (js ''Hue,VI'' @ [0x1EC6] @ js ''T  NAM'')"
    by (simp add: js_def)
  then have e2: "ends_with_country (trim (js '' Hue,VI'' @ [0x1EC6] @ js ''T  NAM ''))"
    unfolding t2 .
  have n3: "\<not> blank (js ''12 Le Loi, Hanoi'')"
    by (simp add: blank_def js_def is_space_def)
  have t3: "trim (js ''12 Le Loi, Hanoi'') = js ''12 Le Loi, Hanoi''"
    by (rule trim_id) (simp_all add: js_def is_space_def)
  have "\<not> ends_with_country (js ''12 Le Loi, Hanoi'')"
    by (rule no_country_by_last) (simp_all add: js_def is_space_def ci_m)
  then have e3: "\<not> ends_with_country (trim (js ''12 Le Loi, Hanoi''))"
    unfolding t3 .
  from formatAddress_cases [of "js ''   ''"] b1
  have r1: "formatAddress (js ''   '') = []" by blast
  from formatAddress_cases [of "js '' Hue,VI'' @ [0x1EC6] @ js ''T  NAM ''"] e2
  have "formatAddress (js '' Hue,VI'' @ [0x1EC6] @ js ''T  NAM '')
          = trim (js '' Hue,VI'' @ [0x1EC6] @ js ''T  NAM '')" by blast
  then have r2: "formatAddress (js '' Hue,VI'' @ [0x1EC6] @ js ''T  NAM '')
                   = js ''Hue,VI'' @ [0x1EC6] @ js ''T  NAM''"
    by (simp only: t2)
  from formatAddress_cases [of "js ''12 Le Loi, Hanoi''"] n3 e3
  have "formatAddress (js ''12 Le Loi, Hanoi'')
          = trim (js ''12 Le Loi, Hanoi'') @ js '', Vi'' @ [0x1EC7] @ js ''t Nam''" by blast
  then have r3: "formatAddress (js ''12 Le Loi, Hanoi'')
                   = js ''12 Le Loi, Hanoi'' @ js '', Vi'' @ [0x1EC7] @ js ''t Nam''"
    by (simp only: t3)
  from b1 r1 e2 r2 n3 e3 r3 show ?thesis by (intro conjI)
qed

text \<open>The claim as the specification words it, with the comma or space before the country
  name optional, fails on the address that is the country name alone: nothing stands
  before the name, no pattern matches, and the suffix is appended.\<close>

theorem formatAddress_bare_country_counterexample:
  "trim (js ''Vietnam'') = js ''Vietnam''
   \<and> formatAddress (js ''Vietnam'') = js ''Vietnam, Vi'' @ [0x1EC7] @ js ''t Nam''
   \<and> formatAddress (js ''Vietnam'') \<noteq> trim (js ''Vietnam'')"
  by (simp add: formatAddress_def trim_def is_space_def js_def vietnamPatterns_def lit_ci_def
      VIET_def NAM_def VIETNAM_def ci_def is_alpha_def COUNTRY_SUFFIX_def)

section \<open>Properties of the persistence store\<close>

text \<open>
  C9. With the \<open>VERCEL\<close> flag set, \<open>writeTaxInfo\<close> makes no write of the file, leaves
  it as it was and reports success, for every record; and \<open>readTaxInfo\<close> returns
  nothing, whatever the file holds, in particular after any save.
\<close>

theorem vercel_store_is_noop:
  "VERCEL e \<Longrightarrow>
     writeTaxInfo e d taxInfo = (True, d, [])
     \<and> readTaxInfo e d = None
     \<and> readTaxInfo e (fst (snd (writeTaxInfo e d taxInfo))) = None"
  by (simp add: writeTaxInfo_def readTaxInfo_def)

theorem vercel_store_is_noop_witness:
  "VERCEL vercel_env
   \<and> writeTaxInfo vercel_env (Holds sample_record) other_record = (True, Holds sample_record, [])
   \<and> readTaxInfo vercel_env (Holds sample_record) = None
   \<and> readTaxInfo vercel_env (fst (snd (writeTaxInfo vercel_env (Holds sample_record) other_record)))
       = None"
proof -
  have v: "VERCEL vercel_env"
    by (simp add: vercel_env_def sample_env_def)
  from vercel_store_is_noop [OF v, of "Holds sample_record" other_record] v
  show ?thesis by simp
qed

section \<open>Properties of the spreadsheet sync\<close>

text \<open>The sample environments: their webhook URL and what their webhooks answer.\<close>

lemma sample_urls:
  "GOOGLE_APPS_SCRIPT_URL env_500 = js ''https://script.test/exec''"
  "GOOGLE_APPS_SCRIPT_URL env_400 = js ''https://script.test/exec''"
  "GOOGLE_APPS_SCRIPT_URL env_flag_false = js ''https://script.test/exec''"
  by (simp_all add: env_500_def env_400_def env_flag_false_def sample_env_def)

lemma sample_url_nonempty: "js ''https://script.test/exec'' \<noteq> []"
  by (simp add: js_def)

lemma sample_webhooks:
  "webhook env_500 p n = Response 500 (js ''Internal Server Error'') NotJson"
  "webhook env_400 p n = Response 400 (js ''Bad Request'') NotJson"
  "webhook env_flag_false p n = Response 200 (js ''OK'') (Json False (js ''Sheet is locked''))"
  by (simp_all add: env_500_def env_400_def env_flag_false_def)

lemma http_status_text:
  "errorMessage 500 s = js ''HTTP 500: '' @ s"
  "errorMessage 400 s = js ''HTTP 400: '' @ s"
  by (simp_all add: errorMessage_def digits.simps js_def)

text \<open>One attempt that is final: a response that is neither 2xx nor a retried 5xx.\<close>

lemma sync_final_status:
  assumes "GOOGLE_APPS_SCRIPT_URL e \<noteq> []"
    and "webhook e (sheet_payload t) n = Response status statusText body"
    and "\<not> ok status"
    and "status < 500 \<or> \<not> n < MAX_RETRIES"
  shows "appendTaxInfoToSheet e t n =
          ((False, errorMessage status statusText),
           [HttpPost (GOOGLE_APPS_SCRIPT_URL e) (sheet_payload t)])"
  using assms by (auto simp add: appendTaxInfoToSheet.simps[of e t n])

text \<open>One attempt that is retried: the request, the wait of \<open>1000 * (n + 1)\<close>
  milliseconds, then the next attempt.\<close>

lemma sync_retry_5xx:
  assumes "GOOGLE_APPS_SCRIPT_URL e \<noteq> []"
    and "webhook e (sheet_payload t) n = Response status statusText body"
    and "500 \<le> status" and "n < MAX_RETRIES"
  shows "appendTaxInfoToSheet e t n =
          retry_after (HttpPost (GOOGLE_APPS_SCRIPT_URL e) (sheet_payload t)) (1000 * (n + 1))
            (appendTaxInfoToSheet e t (n + 1))"
  using assms by (simp add: appendTaxInfoToSheet.simps[of e t n] ok_def)

lemma sync_retry_flag_false:
  assumes "GOOGLE_APPS_SCRIPT_URL e \<noteq> []"
    and "webhook e (sheet_payload t) n = Response status statusText (Json False m)"
    and "ok status" and "n < MAX_RETRIES"
  shows "appendTaxInfoToSheet e t n =
          retry_after (HttpPost (GOOGLE_APPS_SCRIPT_URL e) (sheet_payload t)) (1000 * (n + 1))
            (appendTaxInfoToSheet e t (n + 1))"
  using assms by (simp add: appendTaxInfoToSheet.simps[of e t n])

lemma sync_final_flag_false:
  assumes "GOOGLE_APPS_SCRIPT_URL e \<noteq> []"
    and "webhook e (sheet_payload t) n = Response status statusText (Json False m)"
    and "ok status" and "\<not> n < MAX_RETRIES"
  shows "appendTaxInfoToSheet e t n =
          ((False, or_else m (js ''Apps Script returned error'')),
           [HttpPost (GOOGLE_APPS_SCRIPT_URL e) (sheet_payload t)])"
  using assms by (simp add: appendTaxInfoToSheet.simps[of e t n])

lemma sync_always_5xx:
  assumes u: "GOOGLE_APPS_SCRIPT_URL e \<noteq> []"
    and w: "\<And>n. webhook e (sheet_payload t) n = Response (st n) (txt n) (body n)"
    and s: "\<And>n. 500 \<le> st n"
  shows "appendTaxInfoToSheet e t 0 =
          ((False, errorMessage (st 2) (txt 2)),
           [HttpPost (GOOGLE_APPS_SCRIPT_URL e) (sheet_payload t), Sleep 1000,
            HttpPost (GOOGLE_APPS_SCRIPT_URL e) (sheet_payload t), Sleep 2000,
            HttpPost (GOOGLE_APPS_SCRIPT_URL e) (sheet_payload t)])"
proof -
  have n: "\<not> ok (st 2)" using s [of 2] by (simp add: ok_def)
  have a2: "appendTaxInfoToSheet e t 2 =
      ((False, errorMessage (st 2) (txt 2)), [HttpPost (GOOGLE_APPS_SCRIPT_URL e) (sheet_payload t)])"
    by (rule sync_final_status [OF u w n]) (simp add: MAX_RETRIES_def)
  have a1: "appendTaxInfoToSheet e t 1 =
      retry_after (HttpPost (GOOGLE_APPS_SCRIPT_URL e) (sheet_payload t)) 2000
        (appendTaxInfoToSheet e t 2)"
    using sync_retry_5xx [OF u w s, of 1] by (simp add: MAX_RETRIES_def numeral_2_eq_2)
  have a0: "appendTaxInfoToSheet e t 0 =
      retry_after (HttpPost (GOOGLE_APPS_SCRIPT_URL e) (sheet_payload t)) 1000
        (appendTaxInfoToSheet e t 1)"
    using sync_retry_5xx [OF u w s, of 0] by (simp add: MAX_RETRIES_def)
  show ?thesis unfolding a0 a1 a2 retry_after_def by simp
qed

lemma sync_always_flag_false:
  assumes u: "GOOGLE_APPS_SCRIPT_URL e \<noteq> []"
    and w: "\<And>n. webhook e (sheet_payload t) n = Response (st n) (txt n) (Json False (msg n))"
    and s: "\<And>n. ok (st n)"
  shows "appendTaxInfoToSheet e t 0 =
          ((False, or_else (msg 2) (js ''Apps Script returned error'')),
           [HttpPost (GOOGLE_APPS_SCRIPT_URL e) (sheet_payload t), Sleep 1000,
            HttpPost (GOOGLE_APPS_SCRIPT_URL e) (sheet_payload t), Sleep 2000,
            HttpPost (GOOGLE_APPS_SCRIPT_URL e) (sheet_payload t)])"
proof -
  have a2: "appendTaxInfoToSheet e t 2 =
      ((False, or_else (msg 2) (js ''Apps Script returned error'')),
       [HttpPost (GOOGLE_APPS_SCRIPT_URL e) (sheet_payload t)])"
    by (rule sync_final_flag_false [OF u w s]) (simp add: MAX_RETRIES_def)
  have a1: "appendTaxInfoToSheet e t 1 =
      retry_after (HttpPost (GOOGLE_APPS_SCRIPT_URL e) (sheet_payload t)) 2000
        (appendTaxInfoToSheet e t 2)"
    using sync_retry_flag_false [OF u w s, of 1] by (simp add: MAX_RETRIES_def numeral_2_eq_2)
  have a0: "appendTaxInfoToSheet e t 0 =
      retry_after (HttpPost (GOOGLE_APPS_SCRIPT_URL e) (sheet_payload t)) 1000
        (appendTaxInfoToSheet e t 1)"
    using sync_retry_flag_false [OF u w s, of 0] by (simp add: MAX_RETRIES_def)
  show ?thesis unfolding a0 a1 a2 retry_after_def by simp
qed

text \<open>
  C3. With the webhook configured, against a webhook that answers every attempt with
  HTTP 500 the sync makes exactly three requests, waiting 1000 ms after the first and
  2000 ms after the second, and then reports failure; against a webhook that answers
  HTTP 400 it makes exactly one request and reports failure. This holds for every record.
\<close>

theorem sync_http_500_and_400:
  "GOOGLE_APPS_SCRIPT_URL e \<noteq> [] \<Longrightarrow>
     ((\<forall>n. webhook e (sheet_payload t) n = Response 500 (txt n) (body n)) \<longrightarrow>
        appendTaxInfoToSheet e t 0 =
          ((False, js ''HTTP 500: '' @ txt 2),
           [HttpPost (GOOGLE_APPS_SCRIPT_URL e) (sheet_payload t), Sleep 1000,
            HttpPost (GOOGLE_APPS_SCRIPT_URL e) (sheet_payload t), Sleep 2000,
            HttpPost (GOOGLE_APPS_SCRIPT_URL e) (sheet_payload t)]))
   \<and> (webhook e (sheet_payload t) 0 = Response 400 txt0 body0 \<longrightarrow>
        appendTaxInfoToSheet e t 0 =
          ((False, js ''HTTP 400: '' @ txt0),
           [HttpPost (GOOGLE_APPS_SCRIPT_URL e) (sheet_payload t)]))"
proof (intro conjI impI)
  assume u: "GOOGLE_APPS_SCRIPT_URL e \<noteq> []"
  {
    assume "\<forall>n. webhook e (sheet_payload t) n = Response 500 (txt n) (body n)"
    then have w: "\<And>n. webhook e (sheet_payload t) n = Response 500 (txt n) (body n)"
      by simp
    from sync_always_5xx [OF u w]
    show "appendTaxInfoToSheet e t 0 =
          ((False, js ''HTTP 500: '' @ txt 2),
           [HttpPost (GOOGLE_APPS_SCRIPT_URL e) (sheet_payload t), Sleep 1000,
            HttpPost (GOOGLE_APPS_SCRIPT_URL e) (sheet_payload t), Sleep 2000,
            HttpPost (GOOGLE_APPS_SCRIPT_URL e) (sheet_payload t)])"
      by (simp add: http_status_text)
  next
    assume w: "webhook e (sheet_payload t) 0 = Response 400 txt0 body0"
    have "appendTaxInfoToSheet e t 0 =
          ((False, errorMessage 400 txt0), [HttpPost (GOOGLE_APPS_SCRIPT_URL e) (sheet_payload t)])"
      by (rule sync_final_status [OF u w]) (simp_all add: ok_def)
    then show "appendTaxInfoToSheet e t 0 =
          ((False, js ''HTTP 400: '' @ txt0),
           [HttpPost (GOOGLE_APPS_SCRIPT_URL e) (sheet_payload t)])"
      by (simp add: http_status_text)
  }
qed

theorem sync_http_500_and_400_witness:
  "GOOGLE_APPS_SCRIPT_URL env_500 \<noteq> []
   \<and> (\<forall>n. webhook env_500 (sheet_payload sample_record) n
            = Response 500 (js ''Internal Server Error'') NotJson)
   \<and> appendTaxInfoToSheet env_500 sample_record 0 =
       ((False, js ''HTTP 500: '' @ js ''Internal Server Error''),
        [HttpPost (js ''https://script.test/exec'') (sheet_payload sample_record), Sleep 1000,
         HttpPost (js ''https://script.test/exec'') (sheet_payload sample_record), Sleep 2000,
         HttpPost (js ''https://script.test/exec'') (sheet_payload sample_record)])
   \<and> GOOGLE_APPS_SCRIPT_URL env_400 \<noteq> []
   \<and> webhook env_400 (sheet_payload sample_record) 0 = Response 400 (js ''Bad Request'') NotJson
   \<and> appendTaxInfoToSheet env_400 sample_record 0 =
       ((False, js ''HTTP 400: '' @ js ''Bad Request''),
        [HttpPost (js ''https://script.test/exec'') (sheet_payload sample_record)])"
proof -
  have u5: "GOOGLE_APPS_SCRIPT_URL env_500 \<noteq> []"
    and u4: "GOOGLE_APPS_SCRIPT_URL env_400 \<noteq> []"
    by (simp_all only: sample_urls sample_url_nonempty not_False_eq_True)
  have w5: "\<forall>n. webhook env_500 (sheet_payload sample_record) n
              = Response 500 (js ''Internal Server Error'') NotJson"
    by (simp only: sample_webhooks simp_thms)
  have w4: "webhook env_400 (sheet_payload sample_record) 0
              = Response 400 (js ''Bad Request'') NotJson"
    by (simp only: sample_webhooks)
  have a: "appendTaxInfoToSheet env_500 sample_record 0 =
       ((False, js ''HTTP 500: '' @ js ''Internal Server Error''),
        [HttpPost (js ''https://script.test/exec'') (sheet_payload sample_record), Sleep 1000,
         HttpPost (js ''https://script.test/exec'') (sheet_payload sample_record), Sleep 2000,
         HttpPost (js ''https://script.test/exec'') (sheet_payload sample_record)])"
    using sync_http_500_and_400 [OF u5, of sample_record "\<lambda>n. js ''Internal Server Error''"
        "\<lambda>n. NotJson"] w5
    by (simp only: sample_urls simp_thms)
  have b: "appendTaxInfoToSheet env_400 sample_record 0 =
       ((False, js ''HTTP 400: '' @ js ''Bad Request''),
        [HttpPost (js ''https://script.test/exec'') (sheet_payload sample_record)])"
    using sync_http_500_and_400 [OF u4, of sample_record _ _ "js ''Bad Request''" NotJson] w4
    by (simp only: sample_urls simp_thms)
  from u5 w5 a u4 w4 b show ?thesis by (intro conjI)
qed

text \<open>
  C1, as the code has it. With the webhook configured, an attempt answered with HTTP
  4xx is final: no retry follows, whatever the number of earlier attempts, and the
  failure carries \<open>HTTP <status>: <statusText>\<close> (a fixed hint for 401, 403 and 404).
  A 2xx answer with a well-formed body whose \<open>success\<close> is false is retried like the
  other failures: against a webhook that always answers so, the sync makes three
  requests, waiting 1000 ms and 2000 ms, and only then reports failure, with the
  message of the last answer (or a default when that is empty).
\<close>

theorem sync_4xx_final_flag_false_retried:
  "GOOGLE_APPS_SCRIPT_URL e \<noteq> [] \<Longrightarrow>
     (webhook e (sheet_payload t) n = Response status statusText body
        \<and> 400 \<le> status \<and> status \<le> 499 \<longrightarrow>
        appendTaxInfoToSheet e t n =
          ((False, errorMessage status statusText),
           [HttpPost (GOOGLE_APPS_SCRIPT_URL e) (sheet_payload t)]))
   \<and> ((\<forall>k. webhook e (sheet_payload t) k = Response (st k) (txt k) (Json False (msg k))
             \<and> ok (st k)) \<longrightarrow>
        appendTaxInfoToSheet e t 0 =
          ((False, or_else (msg 2) (js ''Apps Script returned error'')),
           [HttpPost (GOOGLE_APPS_SCRIPT_URL e) (sheet_payload t), Sleep 1000,
            HttpPost (GOOGLE_APPS_SCRIPT_URL e) (sheet_payload t), Sleep 2000,
            HttpPost (GOOGLE_APPS_SCRIPT_URL e) (sheet_payload t)]))"
proof (intro conjI impI)
  assume u: "GOOGLE_APPS_SCRIPT_URL e \<noteq> []"
  {
    assume a: "webhook e (sheet_payload t) n = Response status statusText body
        \<and> 400 \<le> status \<and> status \<le> 499"
    then have w: "webhook e (sheet_payload t) n = Response status statusText body"
      by simp
    show "appendTaxInfoToSheet e t n =
          ((False, errorMessage status statusText),
           [HttpPost (GOOGLE_APPS_SCRIPT_URL e) (sheet_payload t)])"
      by (rule sync_final_status [OF u w]) (use a in \<open>simp_all add: ok_def\<close>)
  next
    assume a: "\<forall>k. webhook e (sheet_payload t) k = Response (st k) (txt k) (Json False (msg k))
             \<and> ok (st k)"
    then have w: "\<And>k. webhook e (sheet_payload t) k = Response (st k) (txt k) (Json False (msg k))"
      and s: "\<And>k. ok (st k)"
      by simp_all
    show "appendTaxInfoToSheet e t 0 =
          ((False, or_else (msg 2) (js ''Apps Script returned error'')),
           [HttpPost (GOOGLE_APPS_SCRIPT_URL e) (sheet_payload t), Sleep 1000,
            HttpPost (GOOGLE_APPS_SCRIPT_URL e) (sheet_payload t), Sleep 2000,
            HttpPost (GOOGLE_APPS_SCRIPT_URL e) (sheet_payload t)])"
      by (rule sync_always_flag_false [OF u w s])
  }
qed

theorem sync_4xx_final_flag_false_retried_witness:
  "GOOGLE_APPS_SCRIPT_URL env_400 \<noteq> []
   \<and> webhook env_400 (sheet_payload sample_record) 0 = Response 400 (js ''Bad Request'') NotJson
   \<and> appendTaxInfoToSheet env_400 sample_record 0 =
       ((False, errorMessage 400 (js ''Bad Request'')),
        [HttpPost (js ''https://script.test/exec'') (sheet_payload sample_record)])
   \<and> GOOGLE_APPS_SCRIPT_URL env_flag_false \<noteq> []
   \<and> (\<forall>k. webhook env_flag_false (sheet_payload sample_record) k
            = Response 200 (js ''OK'') (Json False (js ''Sheet is locked'')) \<and> ok 200)
   \<and> appendTaxInfoToSheet env_flag_false sample_record 0 =
       ((False, or_else (js ''Sheet is locked'') (js ''Apps Script returned error'')),
        [HttpPost (js ''https://script.test/exec'') (sheet_payload sample_record), Sleep 1000,
         HttpPost (js ''https://script.test/exec'') (sheet_payload sample_record), Sleep 2000,
         HttpPost (js ''https://script.test/exec'') (sheet_payload sample_record)])"
proof -
  have u4: "GOOGLE_APPS_SCRIPT_URL env_400 \<noteq> []"
    and uf: "GOOGLE_APPS_SCRIPT_URL env_flag_false \<noteq> []"
    by (simp_all only: sample_urls sample_url_nonempty not_False_eq_True)
  have w4: "webhook env_400 (sheet_payload sample_record) 0
              = Response 400 (js ''Bad Request'') NotJson"
    by (simp only: sample_webhooks)
  have wf: "\<forall>k. webhook env_flag_false (sheet_payload sample_record) k
            = Response 200 (js ''OK'') (Json False (js ''Sheet is locked'')) \<and> ok 200"
    by (simp add: sample_webhooks ok_def)
  have a: "appendTaxInfoToSheet env_400 sample_record 0 =
       ((False, errorMessage 400 (js ''Bad Request'')),
        [HttpPost (js ''https://script.test/exec'') (sheet_payload sample_record)])"
    using sync_4xx_final_flag_false_retried [OF u4, of sample_record 0 400 "js ''Bad Request''"
        NotJson] w4
    by (simp add: sample_urls)
  have b: "appendTaxInfoToSheet env_flag_false sample_record 0 =
       ((False, or_else (js ''Sheet is locked'') (js ''Apps Script returned error'')),
        [HttpPost (js ''https://script.test/exec'') (sheet_payload sample_record), Sleep 1000,
         HttpPost (js ''https://script.test/exec'') (sheet_payload sample_record), Sleep 2000,
         HttpPost (js ''https://script.test/exec'') (sheet_payload sample_record)])"
    using sync_4xx_final_flag_false_retried [OF uf, of sample_record _ _ _ _ "\<lambda>k. 200"
        "\<lambda>k. js ''OK''" "\<lambda>k. js ''Sheet is locked''"] wf
    by (simp add: sample_urls)
  from u4 w4 a uf wf b show ?thesis by (intro conjI)
qed

text \<open>The claim as the specification words it fails: a webhook that answers HTTP 200 with
  \<open>{success: false, message: "Sheet is locked"}\<close> is asked three times, not once.\<close>

theorem sync_flag_false_counterexample:
  "GOOGLE_APPS_SCRIPT_URL env_flag_false \<noteq> []
   \<and> webhook env_flag_false (sheet_payload sample_record) 0
        = Response 200 (js ''OK'') (Json False (js ''Sheet is locked''))
   \<and> snd (appendTaxInfoToSheet env_flag_false sample_record 0) =
        [HttpPost (js ''https://script.test/exec'') (sheet_payload sample_record), Sleep 1000,
         HttpPost (js ''https://script.test/exec'') (sheet_payload sample_record), Sleep 2000,
         HttpPost (js ''https://script.test/exec'') (sheet_payload sample_record)]
   \<and> snd (appendTaxInfoToSheet env_flag_false sample_record 0)
        \<noteq> [HttpPost (js ''https://script.test/exec'') (sheet_payload sample_record)]"
proof -
  have uf: "GOOGLE_APPS_SCRIPT_URL env_flag_false \<noteq> []"
    by (simp only: sample_urls sample_url_nonempty not_False_eq_True)
  have s: "\<And>n::nat. ok 200"
    by (simp add: ok_def)
  have "appendTaxInfoToSheet env_flag_false sample_record 0 =
       ((False, or_else (js ''Sheet is locked'') (js ''Apps Script returned error'')),
        [HttpPost (GOOGLE_APPS_SCRIPT_URL env_flag_false) (sheet_payload sample_record), Sleep 1000,
         HttpPost (GOOGLE_APPS_SCRIPT_URL env_flag_false) (sheet_payload sample_record), Sleep 2000,
         HttpPost (GOOGLE_APPS_SCRIPT_URL env_flag_false) (sheet_payload sample_record)])"
    by (rule sync_always_flag_false [OF uf sample_webhooks(3) s])
  then show ?thesis
    using uf by (simp add: sample_urls sample_webhooks)
qed

section \<open>Properties of the request handlers\<close>

lemma abc_no_tax_code: "\<not> match_here TAX_CODE_RE (js ''abc'')"
  by (simp add: TAX_CODE_RE_def js_def is_digit_def eval_nat_numeral)

lemma empty_no_tax_code: "\<not> match_here TAX_CODE_RE []"
  by (simp add: TAX_CODE_RE_def eval_nat_numeral)

lemma lookup_status_200: "fst (fst (get_tax_lookup e k)) = 200"
  by (simp add: get_tax_lookup_def split: prod.split lookup_result.split)

text \<open>
  C7. The lookup handler answers HTTP 200 in every branch, for every environment and
  every tax code. On a tax code that does not match the pattern, \<open>abc\<close> among them, it
  answers 200 with \<open>success: false\<close> and the format message. An error that reaches the
  error middleware on a URL of the lookup endpoint is answered 200 with
  \<open>success: false\<close> as well.
\<close>

theorem lookup_handler_always_200:
  "fst (fst (get_tax_lookup e k)) = 200
   \<and> (\<not> match_here TAX_CODE_RE k \<longrightarrow> fst (get_tax_lookup e k) = (200, Failure MSG_LOOKUP_FORMAT))
   \<and> fst (get_tax_lookup e (js ''abc'')) = (200, Failure MSG_LOOKUP_FORMAT)
   \<and> \<not> success (fst (get_tax_lookup e (js ''abc'')))
   \<and> (str_includes url (js ''/api/tax-lookup/'') \<longrightarrow>
        fst (error_middleware url msg) = 200 \<and> \<not> success (error_middleware url msg))"
proof -
  have a: "fst (get_tax_lookup e (js ''abc'')) = (200, Failure MSG_LOOKUP_FORMAT)"
    using abc_no_tax_code by (simp add: get_tax_lookup_def)
  have b: "\<not> match_here TAX_CODE_RE k \<longrightarrow> fst (get_tax_lookup e k) = (200, Failure MSG_LOOKUP_FORMAT)"
    by (simp add: get_tax_lookup_def)
  have c: "str_includes url (js ''/api/tax-lookup/'') \<longrightarrow>
        fst (error_middleware url msg) = 200 \<and> \<not> success (error_middleware url msg)"
    by (cases url) (simp_all add: error_middleware_def success_def js_def)
  from a b c lookup_status_200 [of e k] show ?thesis
    by (simp add: success_def)
qed

theorem lookup_handler_always_200_witness:
  "\<not> match_here TAX_CODE_RE (js ''abc'')
   \<and> fst (get_tax_lookup sample_env (js ''abc'')) = (200, Failure MSG_LOOKUP_FORMAT)
   \<and> str_includes (js ''/api/tax-lookup/abc'') (js ''/api/tax-lookup/'')
   \<and> fst (error_middleware (js ''/api/tax-lookup/abc'') (js ''boom'')) = 200
   \<and> \<not> success (error_middleware (js ''/api/tax-lookup/abc'') (js ''boom''))"
proof -
  have i: "str_includes (js ''/api/tax-lookup/abc'') (js ''/api/tax-lookup/'')"
    by (simp add: js_def)
  from lookup_handler_always_200 [of sample_env "js ''abc''" "js ''/api/tax-lookup/abc''"
      "js ''boom''"] abc_no_tax_code i
  show ?thesis by blast
qed






section \<open>Properties of the lookup orchestrator\<close>

lemma tax_code_samples:
  "match_here TAX_CODE_RE (js ''3901212654'')"
  "match_here TAX_CODE_RE (js ''0316794479'')"
  by (simp_all add: TAX_CODE_RE_def js_def is_digit_def eval_nat_numeral)

lemma vietqr_no_success:
  assumes "unreachable_or_error (vietqrApi e (VIETQR_URL k))"
  shows "tryVietQRApi e k \<noteq> Some (LookupOk c)"
  using assms
  by (auto simp add: unreachable_or_error_def tryVietQRApi_def
      split: fetch_result.splits vietqr_body.splits if_splits)

text \<open>When the custom API gives no record and the public registry no success, the result
  is what the fallback table holds.\<close>

lemma lookup_falls_to_table:
  assumes "match_here TAX_CODE_RE k"
    and "custom_api_configured e \<longrightarrow> tryCustomApi e k = None"
    and "\<forall>c. tryVietQRApi e k \<noteq> Some (LookupOk c)"
  shows "fst (lookupCompanyByTaxCode e k) =
           (case MOCK_TAX_DATA k of
              Some mockData \<Rightarrow> LookupOk (from_registry k mockData)
            | None \<Rightarrow> LookupFail MSG_NOT_FOUND)"
  using assms
  by (auto simp add: lookupCompanyByTaxCode_def Let_def split: option.splits lookup_result.splits)

lemma mock_address_formatted: "formatAddress MOCK_ADDRESS = MOCK_ADDRESS @ COUNTRY_SUFFIX"
  by (rule formatAddress_appends) (simp_all add: MOCK_ADDRESS_def js_def is_space_def ci_m)

lemma mock_entry:
  "from_registry (js ''3901212654'') (the (MOCK_TAX_DATA (js ''3901212654''))) =
     \<lparr> co_taxCode = js ''3901212654'', co_companyName = MOCK_TITLE,
       co_companyNameEn = js ''Ngo Trong Phat Co., Ltd'', co_shortName = [],
       co_address = MOCK_ADDRESS @ COUNTRY_SUFFIX \<rparr>"
proof -
  have n: "js ''3901212654'' \<noteq> []" by (simp add: js_def)
  show ?thesis
    by (simp add: from_registry_def MOCK_TAX_DATA_def mock_address_formatted or_else_def n)
qed

lemma mock_has_entry: "MOCK_TAX_DATA (js ''3901212654'') \<noteq> None"
  by (simp add: MOCK_TAX_DATA_def)

text \<open>
  C8. With no custom API configured and the public registry unreachable or answering an
  error, the lookup of \<open>3901212654\<close> succeeds from the fallback table with the company
  name of the table and its address followed by the comma, a space and the two-word
  country name.
\<close>

theorem fallback_table_resolves_3901212654:
  "\<not> custom_api_configured e \<Longrightarrow>
   unreachable_or_error (vietqrApi e (VIETQR_URL (js ''3901212654''))) \<Longrightarrow>
   fst (lookupCompanyByTaxCode e (js ''3901212654'')) =
     LookupOk
       \<lparr> co_taxCode = js ''3901212654'',
         co_companyName = js ''C'' @ [0xF4] @ js ''ng Ty TNHH Mtv Ng'' @ [0xF4] @ js '' Tr''
           @ [0x1ECD] @ js ''ng Ph'' @ [0xE1] @ js ''t'',
         co_companyNameEn = js ''Ngo Trong Phat Co., Ltd'',
         co_shortName = [],
         co_address =
           (js ''T'' @ [0x1ED5] @ js '' 17, '' @ [0x1EA5] @ js ''p T'' @ [0xE2] @ js ''n Ti''
              @ [0x1EBF] @ js ''n, X'' @ [0xE3] @ js '' T'' @ [0xE2] @ js ''n L'' @ [0x1EAD]
              @ js ''p, Huy'' @ [0x1EC7] @ js ''n T'' @ [0xE2] @ js ''n Bi'' @ [0xEA]
              @ js ''n, T'' @ [0x1EC9] @ js ''nh T'' @ [0xE2] @ js ''y Ninh'')
           @ js '', Vi'' @ [0x1EC7] @ js ''t Nam'' \<rparr>"
proof -
  assume c: "\<not> custom_api_configured e"
    and u: "unreachable_or_error (vietqrApi e (VIETQR_URL (js ''3901212654'')))"
  from u have v: "\<forall>c. tryVietQRApi e (js ''3901212654'') \<noteq> Some (LookupOk c)"
    by (simp add: vietqr_no_success)
  from c have c': "custom_api_configured e \<longrightarrow> tryCustomApi e (js ''3901212654'') = None"
    by simp
  from mock_has_entry obtain m where m: "MOCK_TAX_DATA (js ''3901212654'') = Some m"
    by blast
  from lookup_falls_to_table [OF tax_code_samples(1) c' v] m
  have "fst (lookupCompanyByTaxCode e (js ''3901212654''))
          = LookupOk (from_registry (js ''3901212654'') (the (MOCK_TAX_DATA (js ''3901212654''))))"
    by simp
  then have "fst (lookupCompanyByTaxCode e (js ''3901212654'')) =
     LookupOk
       \<lparr> co_taxCode = js ''3901212654'', co_companyName = MOCK_TITLE,
         co_companyNameEn = js ''Ngo Trong Phat Co., Ltd'', co_shortName = [],
         co_address = MOCK_ADDRESS @ COUNTRY_SUFFIX \<rparr>"
    by (simp only: mock_entry)
  then show ?thesis
    unfolding MOCK_TITLE_def MOCK_ADDRESS_def COUNTRY_SUFFIX_def .
qed

lemma sample_lookup_envs:
  "\<not> custom_api_configured sample_env"
  "\<not> custom_api_configured env_registry_error"
  "vietqrApi sample_env u = Failed (js ''fetch failed'')"
  "vietqrApi env_registry_error u =
     Response 200 (js ''OK'')
       (VqJson \<lparr> vq_code = js ''51'', vq_desc = js ''Tax code not found'', vq_data = None \<rparr>)"
  by (simp_all add: custom_api_configured_def sample_env_def env_registry_error_def)

lemma sample_unreachable:
  "unreachable_or_error (vietqrApi sample_env u)"
  "unreachable_or_error (vietqrApi env_registry_error u)"
  by (simp_all add: sample_lookup_envs unreachable_or_error_def ok_def js_def)

theorem fallback_table_resolves_3901212654_witness:
  "\<not> custom_api_configured sample_env
   \<and> unreachable_or_error (vietqrApi sample_env (VIETQR_URL (js ''3901212654'')))
   \<and> fst (lookupCompanyByTaxCode sample_env (js ''3901212654'')) =
     LookupOk
       \<lparr> co_taxCode = js ''3901212654'',
         co_companyName = js ''C'' @ [0xF4] @ js ''ng Ty TNHH Mtv Ng'' @ [0xF4] @ js '' Tr''
           @ [0x1ECD] @ js ''ng Ph'' @ [0xE1] @ js ''t'',
         co_companyNameEn = js ''Ngo Trong Phat Co., Ltd'',
         co_shortName = [],
         co_address =
           (js ''T'' @ [0x1ED5] @ js '' 17, '' @ [0x1EA5] @ js ''p T'' @ [0xE2] @ js ''n Ti''
              @ [0x1EBF] @ js ''n, X'' @ [0xE3] @ js '' T'' @ [0xE2] @ js ''n L'' @ [0x1EAD]
              @ js ''p, Huy'' @ [0x1EC7] @ js ''n T'' @ [0xE2] @ js ''n Bi'' @ [0xEA]
              @ js ''n, T'' @ [0x1EC9] @ js ''nh T'' @ [0xE2] @ js ''y Ninh'')
           @ js '', Vi'' @ [0x1EC7] @ js ''t Nam'' \<rparr>
   \<and> \<not> custom_api_configured env_registry_error
   \<and> unreachable_or_error (vietqrApi env_registry_error (VIETQR_URL (js ''3901212654'')))
   \<and> fst (lookupCompanyByTaxCode env_registry_error (js ''3901212654''))
        = fst (lookupCompanyByTaxCode sample_env (js ''3901212654''))"
proof -
  note a = fallback_table_resolves_3901212654 [OF sample_lookup_envs(1) sample_unreachable(1)]
  note b = fallback_table_resolves_3901212654 [OF sample_lookup_envs(2) sample_unreachable(2)]
  from a sample_lookup_envs(1,2) sample_unreachable(1) [of "VIETQR_URL (js ''3901212654'')"]
    sample_unreachable(2) [of "VIETQR_URL (js ''3901212654'')"]
  show ?thesis by (simp add: b)
qed

lemma registry_error_result:
  "tryVietQRApi env_registry_error k
     = Some (LookupFail (js ''VietQR API: '' @ js ''Tax code not found''))"
proof -
  have a: "js ''51'' \<noteq> js ''00''" "js ''51'' \<noteq> []" "js ''Tax code not found'' \<noteq> []"
    by (simp_all add: js_def)
  show ?thesis
    by (simp add: tryVietQRApi_def sample_lookup_envs ok_def or_else_def a)
qed

lemma mock_other_key: "MOCK_TAX_DATA (js ''0316794479'') = None"
  by (simp add: MOCK_TAX_DATA_def js_def)

text \<open>
  C2, as the code has it. When all three sources fail for a well-formed tax code (the
  custom API is not configured or gives no record, the public registry gives no success,
  the fallback table has no entry), the lookup returns a failure whose message is always
  the generic one. An error description of the public registry is logged and not
  returned: the result is the same generic message when \<open>tryVietQRApi\<close> has returned
  a failure with a message.
\<close>

theorem all_sources_fail_generic_message:
  "match_here TAX_CODE_RE k \<Longrightarrow>
   (custom_api_configured e \<longrightarrow> tryCustomApi e k = None) \<Longrightarrow>
   MOCK_TAX_DATA k = None \<Longrightarrow>
     ((\<forall>c. tryVietQRApi e k \<noteq> Some (LookupOk c)) \<longrightarrow>
        fst (lookupCompanyByTaxCode e k) = LookupFail MSG_NOT_FOUND)
     \<and> (tryVietQRApi e k = Some (LookupFail m) \<longrightarrow>
          fst (lookupCompanyByTaxCode e k) = LookupFail MSG_NOT_FOUND)"
proof (intro conjI impI)
  assume k: "match_here TAX_CODE_RE k"
    and c: "custom_api_configured e \<longrightarrow> tryCustomApi e k = None"
    and t: "MOCK_TAX_DATA k = None"
  {
    assume v: "\<forall>c. tryVietQRApi e k \<noteq> Some (LookupOk c)"
    from lookup_falls_to_table [OF k c v] t
    show "fst (lookupCompanyByTaxCode e k) = LookupFail MSG_NOT_FOUND" by simp
  next
    assume "tryVietQRApi e k = Some (LookupFail m)"
    then have v: "\<forall>c. tryVietQRApi e k \<noteq> Some (LookupOk c)" by simp
    from lookup_falls_to_table [OF k c v] t
    show "fst (lookupCompanyByTaxCode e k) = LookupFail MSG_NOT_FOUND" by simp
  }
qed

theorem all_sources_fail_generic_message_witness:
  "match_here TAX_CODE_RE (js ''0316794479'')
   \<and> \<not> custom_api_configured env_registry_error
   \<and> MOCK_TAX_DATA (js ''0316794479'') = None
   \<and> tryVietQRApi env_registry_error (js ''0316794479'')
        = Some (LookupFail (js ''VietQR API: '' @ js ''Tax code not found''))
   \<and> fst (lookupCompanyByTaxCode env_registry_error (js ''0316794479'')) = LookupFail MSG_NOT_FOUND"
proof -
  have c: "custom_api_configured env_registry_error \<longrightarrow>
             tryCustomApi env_registry_error (js ''0316794479'') = None"
    by (simp add: sample_lookup_envs)
  from all_sources_fail_generic_message [OF tax_code_samples(2) c mock_other_key,
      of "js ''VietQR API: '' @ js ''Tax code not found''"]
    registry_error_result [of "js ''0316794479''"]
  have "fst (lookupCompanyByTaxCode env_registry_error (js ''0316794479'')) = LookupFail MSG_NOT_FOUND"
    by blast
  with tax_code_samples(2) sample_lookup_envs(2) mock_other_key
    registry_error_result [of "js ''0316794479''"]
  show ?thesis by (intro conjI)
qed

text \<open>The claim as the specification words it fails: the public registry answers the
  error description \<open>Tax code not found\<close>, every source fails, and the message returned
  is the generic one, not the description.\<close>

theorem registry_description_counterexample:
  "match_here TAX_CODE_RE (js ''0316794479'')
   \<and> tryVietQRApi env_registry_error (js ''0316794479'')
        = Some (LookupFail (js ''VietQR API: '' @ js ''Tax code not found''))
   \<and> fst (lookupCompanyByTaxCode env_registry_error (js ''0316794479'')) = LookupFail MSG_NOT_FOUND
   \<and> MSG_NOT_FOUND \<noteq> js ''VietQR API: '' @ js ''Tax code not found''"
proof -
  have c: "custom_api_configured env_registry_error \<longrightarrow>
             tryCustomApi env_registry_error (js ''0316794479'') = None"
    by (simp add: sample_lookup_envs)
  have v: "\<forall>c. tryVietQRApi env_registry_error (js ''0316794479'') \<noteq> Some (LookupOk c)"
    by (simp add: registry_error_result)
  from lookup_falls_to_table [OF tax_code_samples(2) c v] mock_other_key
  have r: "fst (lookupCompanyByTaxCode env_registry_error (js ''0316794479''))
             = LookupFail MSG_NOT_FOUND"
    by simp
  have d: "MSG_NOT_FOUND \<noteq> js ''VietQR API: '' @ js ''Tax code not found''"
    by (simp add: MSG_NOT_FOUND_def js_def)
  from tax_code_samples(2) registry_error_result [of "js ''0316794479''"] r d
  show ?thesis by (intro conjI)
qed

section \<open>Properties of the phone normaliser\<close>










end
